theory Spec2Isabelle
  imports Complex_Main
begin

section \<open>Numbers of the source language\<close>

text \<open>
  The source computes on TypeScript's \<open>number\<close>. The model keeps the special values a
  \<open>number\<close> can take (both infinities and NaN), because the source divides by its
  arguments without a check, and HOL's own \<open>x / 0 = 0\<close> would hide what such a division
  returns. Finite values are exact reals: rounding, overflow of large finite results
  and the sign of zero are not modelled (a zero divisor is read as \<open>+0\<close>).
\<close>

datatype jsnum = Fin real | PInf | NInf | NaN

fun is_finite :: "jsnum \<Rightarrow> bool" where
  "is_finite (Fin a) = True"
| "is_finite PInf = False"
| "is_finite NInf = False"
| "is_finite NaN = False"

text \<open>A loop counter or a whole-number constant, as a \<open>number\<close>.\<close>

definition num :: "nat \<Rightarrow> jsnum" where
  "num k = Fin (real k)"

text \<open>Unary minus.\<close>

fun js_neg :: "jsnum \<Rightarrow> jsnum" where
  "js_neg (Fin a) = Fin (- a)"
| "js_neg PInf = NInf"
| "js_neg NInf = PInf"
| "js_neg NaN = NaN"

text \<open>Addition: NaN is absorbing, and the sum of opposite infinities is NaN.\<close>

fun js_add :: "jsnum \<Rightarrow> jsnum \<Rightarrow> jsnum" where
  "js_add NaN b = NaN"
| "js_add a NaN = NaN"
| "js_add (Fin a) (Fin b) = Fin (a + b)"
| "js_add PInf NInf = NaN"
| "js_add NInf PInf = NaN"
| "js_add PInf b = PInf"
| "js_add NInf b = NInf"
| "js_add (Fin a) PInf = PInf"
| "js_add (Fin a) NInf = NInf"

definition js_sub :: "jsnum \<Rightarrow> jsnum \<Rightarrow> jsnum" where
  "js_sub a b = js_add a (js_neg b)"

text \<open>Multiplication: an infinity times zero is NaN, otherwise the signs multiply.\<close>

fun js_mul :: "jsnum \<Rightarrow> jsnum \<Rightarrow> jsnum" where
  "js_mul NaN b = NaN"
| "js_mul a NaN = NaN"
| "js_mul (Fin a) (Fin b) = Fin (a * b)"
| "js_mul PInf (Fin b) = (if b = 0 then NaN else if 0 < b then PInf else NInf)"
| "js_mul NInf (Fin b) = (if b = 0 then NaN else if 0 < b then NInf else PInf)"
| "js_mul (Fin a) PInf = (if a = 0 then NaN else if 0 < a then PInf else NInf)"
| "js_mul (Fin a) NInf = (if a = 0 then NaN else if 0 < a then NInf else PInf)"
| "js_mul PInf PInf = PInf"
| "js_mul NInf NInf = PInf"
| "js_mul PInf NInf = NInf"
| "js_mul NInf PInf = NInf"

text \<open>
  Division never raises: a finite non-zero value over zero is an infinity of its sign,
  zero over zero is NaN, a finite value over an infinity is zero, and an infinity over
  an infinity is NaN.
\<close>

fun js_div :: "jsnum \<Rightarrow> jsnum \<Rightarrow> jsnum" where
  "js_div NaN b = NaN"
| "js_div a NaN = NaN"
| "js_div (Fin a) (Fin b) =
     (if b \<noteq> 0 then Fin (a / b)
      else if a = 0 then NaN
      else if 0 < a then PInf else NInf)"
| "js_div (Fin a) PInf = Fin 0"
| "js_div (Fin a) NInf = Fin 0"
| "js_div PInf (Fin b) = (if 0 \<le> b then PInf else NInf)"
| "js_div NInf (Fin b) = (if 0 \<le> b then NInf else PInf)"
| "js_div PInf PInf = NaN"
| "js_div PInf NInf = NaN"
| "js_div NInf PInf = NaN"
| "js_div NInf NInf = NaN"

text \<open>
  \<open>Math.atan\<close>, \<open>Math.cos\<close> and \<open>Math.PI\<close>. The arc tangent of an infinity is a
  quarter turn of its sign; the cosine of an infinity is NaN.
\<close>

fun Math_atan :: "jsnum \<Rightarrow> jsnum" where
  "Math_atan (Fin a) = Fin (arctan a)"
| "Math_atan PInf = Fin (pi / 2)"
| "Math_atan NInf = Fin (- (pi / 2))"
| "Math_atan NaN = NaN"

fun Math_cos :: "jsnum \<Rightarrow> jsnum" where
  "Math_cos (Fin a) = Fin (cos a)"
| "Math_cos PInf = NaN"
| "Math_cos NInf = NaN"
| "Math_cos NaN = NaN"

definition Math_PI :: jsnum where
  "Math_PI = Fin pi"


section \<open>Values of the host engine\<close>

text \<open>
  The engine (\<open>@dcl/sdk\<close>) is not part of the repository. Its values are kept as the
  source builds them: a vector is its three components, and a rotation is the call
  \<open>Quaternion.fromEulerDegrees(x, y, z)\<close> with its three angles in degrees (pitch about
  the x axis, yaw about the vertical y axis, roll about the z axis), the only way the
  repository builds one. A texture is the video texture of a player entity, the only
  texture the repository makes.
\<close>

type_synonym entity = nat

datatype vector3 = Vector3_create (vec_x: jsnum) (vec_y: jsnum) (vec_z: jsnum)

datatype quaternion =
  fromEulerDegrees (euler_x: jsnum) (euler_y: jsnum) (euler_z: jsnum)

datatype texture_union = Texture_Video entity

datatype color3 = Color3_White

record transform =
  tf_parent :: "entity option"
  tf_position :: vector3
  tf_rotation :: quaternion
  tf_scale :: vector3

record pbr_material =
  texture :: texture_union
  roughness :: jsnum
  specularIntensity :: jsnum
  metallic :: jsnum
  emissiveTexture :: texture_union
  emissiveIntensity :: jsnum
  emissiveColor :: color3

text \<open>
  The engine's state, as far as the source writes it: the next fresh entity and, per
  entity, the components the source attaches.
\<close>

record engine =
  next_entity :: entity
  transforms :: "entity \<rightharpoonup> transform"
  boxes :: "entity \<rightharpoonup> jsnum list"
  materials :: "entity \<rightharpoonup> pbr_material"

definition addEntity :: "engine \<Rightarrow> entity \<times> engine" where
  "addEntity eng = (next_entity eng, eng\<lparr>next_entity := Suc (next_entity eng)\<rparr>)"

definition Transform_create :: "entity \<Rightarrow> transform \<Rightarrow> engine \<Rightarrow> engine" where
  "Transform_create e t eng = eng\<lparr>transforms := (transforms eng)(e \<mapsto> t)\<rparr>"

definition MeshRenderer_setBox :: "entity \<Rightarrow> jsnum list \<Rightarrow> engine \<Rightarrow> engine" where
  "MeshRenderer_setBox e uvs eng = eng\<lparr>boxes := (boxes eng)(e \<mapsto> uvs)\<rparr>"

definition Material_setPbrMaterial :: "entity \<Rightarrow> pbr_material \<Rightarrow> engine \<Rightarrow> engine" where
  "Material_setPbrMaterial e m eng = eng\<lparr>materials := (materials eng)(e \<mapsto> m)\<rparr>"


section \<open>The component: \<open>curved-screen.ts\<close>\<close>

record CurvedScreenOptions =
  opt_position :: vector3
  opt_rotation :: quaternion
  opt_scale :: vector3
  videoTexture :: texture_union
  curveFactor :: "jsnum option"

subsection \<open>\<open>setUVsForSegment\<close>\<close>

definition setUVsForSegment :: "jsnum \<Rightarrow> jsnum \<Rightarrow> jsnum list" where
  "setUVsForSegment segmentIndex totalSegments =
     (let reversedSegmentIndex = js_sub (js_sub totalSegments (Fin 1)) segmentIndex;
          uStart = js_div reversedSegmentIndex totalSegments;
          uEnd = js_div (js_add reversedSegmentIndex (Fin 1)) totalSegments
      in [Fin 0, Fin 0, Fin 0, Fin 0, Fin 0, Fin 0, Fin 0, Fin 0,
          Fin 0, Fin 0, Fin 0, Fin 0, Fin 0, Fin 0, Fin 0, Fin 0,
          Fin 0, Fin 0, Fin 0, Fin 0, Fin 0, Fin 0, Fin 0, Fin 0,
          Fin 0, Fin 0, Fin 0, Fin 0, Fin 0, Fin 0, Fin 0, Fin 0,
          uEnd, Fin 1,
          uStart, Fin 1,
          uStart, Fin 0,
          uEnd, Fin 0,
          Fin 0, Fin 0, Fin 0, Fin 0, Fin 0, Fin 0, Fin 0, Fin 0])"

subsection \<open>\<open>calculateSegmentTransform\<close>\<close>

text \<open>
  In the source this function is local to \<open>createCurvedScreen\<close> and reads the constants
  \<open>screenWidth\<close>, \<open>totalSegments\<close> and \<open>curveFactor\<close> of the enclosing call. Here they are
  its first three arguments; \<open>createCurvedScreen\<close> below supplies the source's values.
\<close>

record segment_transform =
  seg_position :: vector3
  seg_rotation :: quaternion
  seg_angle :: jsnum

definition calculateSegmentTransform ::
  "jsnum \<Rightarrow> jsnum \<Rightarrow> jsnum \<Rightarrow> jsnum \<Rightarrow> segment_transform" where
  "calculateSegmentTransform screenWidth totalSegments curveFactor' segmentIndex =
     (let x = js_add (js_div (js_neg screenWidth) (Fin 2))
                (js_mul (js_add segmentIndex (Fin 0.5)) (js_div screenWidth totalSegments));
          z = js_mul (js_mul (js_mul curveFactor' (js_div x screenWidth))
                        (js_div x screenWidth)) screenWidth;
          derivative = js_div (js_mul (js_mul (Fin 2) curveFactor') x) screenWidth;
          angle = Math_atan derivative;
          rotationY = js_mul (js_neg angle) (js_div (Fin 180) Math_PI)
      in \<lparr>seg_position = Vector3_create x (Fin 0) z,
          seg_rotation = fromEulerDegrees (Fin 0) rotationY (Fin 0),
          seg_angle = angle\<rparr>)"

subsection \<open>The creation loop\<close>

text \<open>The loop's local \<open>adjustedWidth\<close>.\<close>

definition adjustedWidth :: "jsnum \<Rightarrow> jsnum \<Rightarrow> jsnum \<Rightarrow> jsnum" where
  "adjustedWidth screenWidth totalSegments angle =
     js_div (js_div screenWidth totalSegments) (Math_cos angle)"

text \<open>One pass through the body of the loop, for the counter \<open>i\<close>.\<close>

definition create_segment ::
  "jsnum \<Rightarrow> jsnum \<Rightarrow> nat \<Rightarrow> jsnum \<Rightarrow> texture_union \<Rightarrow> entity \<Rightarrow> nat \<Rightarrow> engine \<Rightarrow> engine" where
  "create_segment screenWidth screenHeight totalSegments curveFactor' tex screenParent i eng =
     (let (segmentEntity, eng1) = addEntity eng;
          t = calculateSegmentTransform screenWidth (num totalSegments) curveFactor' (num i);
          w = adjustedWidth screenWidth (num totalSegments) (seg_angle t);
          eng2 = Transform_create segmentEntity
                   \<lparr>tf_parent = Some screenParent,
                    tf_position = seg_position t,
                    tf_rotation = seg_rotation t,
                    tf_scale = Vector3_create w screenHeight (Fin 0.1)\<rparr> eng1;
          eng3 = MeshRenderer_setBox segmentEntity
                   (setUVsForSegment (num i) (num totalSegments)) eng2
      in Material_setPbrMaterial segmentEntity
           \<lparr>texture = tex,
            roughness = Fin 1.0,
            specularIntensity = Fin 0,
            metallic = Fin 0,
            emissiveTexture = tex,
            emissiveIntensity = Fin 1,
            emissiveColor = Color3_White\<rparr> eng3)"

text \<open>
  \<open>for (let i = 0; i < totalSegments; i++)\<close>, entered at counter \<open>i\<close>. The counter
  starts at 0 and grows by 1, and the source's count is a whole-number literal: both are
  natural numbers here, and the loop ends because their distance shrinks.
\<close>

function create_segments ::
  "jsnum \<Rightarrow> jsnum \<Rightarrow> nat \<Rightarrow> jsnum \<Rightarrow> texture_union \<Rightarrow> entity \<Rightarrow> nat \<Rightarrow> engine \<Rightarrow> engine" where
  "create_segments screenWidth screenHeight totalSegments curveFactor' tex screenParent i eng =
     (if i < totalSegments
      then create_segments screenWidth screenHeight totalSegments curveFactor' tex screenParent
             (Suc i)
             (create_segment screenWidth screenHeight totalSegments curveFactor' tex
                screenParent i eng)
      else eng)"
  by pat_completeness auto
termination
  by (relation "measure (\<lambda>(W, H, n, c, tex, p, i, eng). n - i)") auto

declare create_segments.simps [simp del]

text \<open>The operator \<open>??\<close>: the left value unless it is missing.\<close>

definition nullish :: "'a option \<Rightarrow> 'a \<Rightarrow> 'a" where
  "nullish v d = (case v of Some a \<Rightarrow> a | None \<Rightarrow> d)"

text \<open>
  The body of \<open>createCurvedScreen\<close>, with its three blueprint constants as arguments:
  the curve factor or its default, the parent entity with the caller's transform, then
  the loop. The parent entity is returned, together with the engine's new state.
\<close>

definition create_screen ::
  "jsnum \<Rightarrow> jsnum \<Rightarrow> nat \<Rightarrow> CurvedScreenOptions \<Rightarrow> engine \<Rightarrow> entity \<times> engine" where
  "create_screen screenWidth screenHeight totalSegments options eng =
     (let curveFactor' = nullish (curveFactor options) (Fin 0.3);
          (screenParent, eng1) = addEntity eng;
          eng2 = Transform_create screenParent
                   \<lparr>tf_parent = None,
                    tf_position = opt_position options,
                    tf_rotation = opt_rotation options,
                    tf_scale = opt_scale options\<rparr> eng1
      in (screenParent,
          create_segments screenWidth screenHeight totalSegments curveFactor'
            (videoTexture options) screenParent 0 eng2))"

text \<open>\<open>createCurvedScreen\<close>, with the source's constants: 22 segments, 16 wide, 9 high.\<close>

definition createCurvedScreen :: "CurvedScreenOptions \<Rightarrow> engine \<Rightarrow> entity \<times> engine" where
  "createCurvedScreen options eng = create_screen (Fin 16) (Fin 9) 22 options eng"


section \<open>The formulas of the specification\<close>

text \<open>
  The specification's formulas, in its own words and over the reals, to compare the
  source with. \<open>i\<close> is the segment index.
\<close>

definition spec_reversedIndex :: "nat \<Rightarrow> nat \<Rightarrow> nat" where
  "spec_reversedIndex totalSegments i = (totalSegments - 1) - i"

definition spec_uStart :: "nat \<Rightarrow> nat \<Rightarrow> real" where
  "spec_uStart totalSegments i =
     real (spec_reversedIndex totalSegments i) / real totalSegments"

definition spec_uEnd :: "nat \<Rightarrow> nat \<Rightarrow> real" where
  "spec_uEnd totalSegments i =
     (real (spec_reversedIndex totalSegments i) + 1) / real totalSegments"

definition spec_x :: "real \<Rightarrow> real \<Rightarrow> real \<Rightarrow> real" where
  "spec_x screenWidth segmentCount i =
     - screenWidth / 2 + (i + 0.5) * (screenWidth / segmentCount)"

definition spec_z :: "real \<Rightarrow> real \<Rightarrow> real \<Rightarrow> real" where
  "spec_z screenWidth c x = c * (x / screenWidth)\<^sup>2 * screenWidth"

definition spec_angle :: "real \<Rightarrow> real \<Rightarrow> real \<Rightarrow> real" where
  "spec_angle screenWidth c x = arctan (2 * c * x / screenWidth)"

text \<open>An angle given in radians, in degrees.\<close>

definition degrees :: "real \<Rightarrow> real" where
  "degrees r = r * (180 / pi)"

text \<open>
  The eight entries of the visible face (face 5 of 6, eight entries a face): four
  corners, \<open>u\<close> then \<open>v\<close> each.
\<close>

definition visible_face :: "jsnum list \<Rightarrow> jsnum list" where
  "visible_face uvs = take 8 (drop 32 uvs)"


text \<open>
  The slice of the texture a visible face shows: its \<open>u\<close> runs from the \<open>uStart\<close> entry
  (corners 2 and 3) to the \<open>uEnd\<close> entry (corners 1 and 4). A bound that is not finite
  gives no slice.
\<close>

definition uStart_edge :: "jsnum list \<Rightarrow> jsnum" where
  "uStart_edge uvs = uvs ! 34"

definition uEnd_edge :: "jsnum list \<Rightarrow> jsnum" where
  "uEnd_edge uvs = uvs ! 32"

fun closed_between :: "jsnum \<Rightarrow> jsnum \<Rightarrow> real set" where
  "closed_between (Fin a) (Fin b) = {a..b}"
| "closed_between a b = {}"

fun open_between :: "jsnum \<Rightarrow> jsnum \<Rightarrow> real set" where
  "open_between (Fin a) (Fin b) = {a<..<b}"
| "open_between a b = {}"

definition texture_interval :: "jsnum list \<Rightarrow> real set" where
  "texture_interval uvs = closed_between (uStart_edge uvs) (uEnd_edge uvs)"

definition texture_interior :: "jsnum list \<Rightarrow> real set" where
  "texture_interior uvs = open_between (uStart_edge uvs) (uEnd_edge uvs)"


section \<open>The UV slice mapper\<close>

lemma setUVs_length: "length (setUVsForSegment i n) = 48"
  by (simp add: setUVsForSegment_def Let_def)

lemma setUVs_fin:
  assumes "n \<noteq> 0"
  shows "setUVsForSegment (Fin i) (Fin n) =
     replicate 32 (Fin 0) @
     [Fin ((n - 1 - i + 1) / n), Fin 1, Fin ((n - 1 - i) / n), Fin 1,
      Fin ((n - 1 - i) / n), Fin 0, Fin ((n - 1 - i + 1) / n), Fin 0] @
     replicate 8 (Fin 0)"
  using assms by (simp add: setUVsForSegment_def Let_def js_sub_def numeral_eq_Suc)

lemma real_reversed:
  assumes "i < n"
  shows "real (n - 1 - i) = real n - 1 - real i"
  using assms by (simp add: of_nat_diff)

text \<open>
  Claim C3. For a segment index \<open>i\<close> below \<open>totalSegments\<close>, the visible face gets the
  corners \<open>(uEnd, 1)\<close>, \<open>(uStart, 1)\<close>, \<open>(uStart, 0)\<close>, \<open>(uEnd, 0)\<close> in this order, where
  \<open>uStart\<close> and \<open>uEnd\<close> are the specification's slice bounds of the reversed index
  \<open>(totalSegments - 1) - i\<close>.
\<close>

theorem visible_face_corners:
  assumes "i < n"
  shows "visible_face (setUVsForSegment (num i) (num n)) =
     [Fin (spec_uEnd n i), Fin 1, Fin (spec_uStart n i), Fin 1,
      Fin (spec_uStart n i), Fin 0, Fin (spec_uEnd n i), Fin 0]"
proof -
  from assms have n0: "real n \<noteq> 0" by simp
  show ?thesis
    unfolding num_def setUVs_fin [OF n0] visible_face_def spec_uEnd_def spec_uStart_def
      spec_reversedIndex_def real_reversed [OF assms]
    by simp
qed

theorem visible_face_corners_witness:
  "(5::nat) < 22 \<and>
   visible_face (setUVsForSegment (num 5) (num 22)) =
     [Fin (17 / 22), Fin 1, Fin (16 / 22), Fin 1,
      Fin (16 / 22), Fin 0, Fin (17 / 22), Fin 0]"
  using visible_face_corners [of 5 22]
  by (simp add: spec_uEnd_def spec_uStart_def spec_reversedIndex_def)

text \<open>
  Claim C9. Whatever the two arguments are, the result has 48 entries; the 32 entries of
  faces 1 to 4 and the 8 entries of face 6 are the number 0, so only the 8 entries of
  face 5 can depend on the arguments.
\<close>

theorem hidden_faces_zero:
  "length (setUVsForSegment segmentIndex totalSegments) = 48 \<and>
   take 32 (setUVsForSegment segmentIndex totalSegments) = replicate 32 (Fin 0) \<and>
   drop 40 (setUVsForSegment segmentIndex totalSegments) = replicate 8 (Fin 0)"
  by (simp add: setUVsForSegment_def Let_def numeral_eq_Suc)

lemma uv_edges:
  assumes "i < n"
  shows "uStart_edge (setUVsForSegment (num i) (num n)) = Fin (real (n - 1 - i) / real n)"
    and "uEnd_edge (setUVsForSegment (num i) (num n)) = Fin (real (n - i) / real n)"
proof -
  from assms have n0: "real n \<noteq> 0" by simp
  from assms have r: "real (n - 1 - i) = real n - 1 - real i"
    and r': "real (n - i) = real n - real i"
    by (simp_all add: of_nat_diff)
  show "uStart_edge (setUVsForSegment (num i) (num n)) = Fin (real (n - 1 - i) / real n)"
    unfolding num_def setUVs_fin [OF n0] uStart_edge_def r
    by (simp add: nth_append)
  show "uEnd_edge (setUVsForSegment (num i) (num n)) = Fin (real (n - i) / real n)"
    unfolding num_def setUVs_fin [OF n0] uEnd_edge_def r'
    by (simp add: nth_append)
qed

lemma uv_interval:
  assumes "i < n"
  shows "texture_interval (setUVsForSegment (num i) (num n)) =
           {real (n - 1 - i) / real n .. real (n - i) / real n}"
    and "texture_interior (setUVsForSegment (num i) (num n)) =
           {real (n - 1 - i) / real n <..< real (n - i) / real n}"
  by (simp_all add: texture_interval_def texture_interior_def uv_edges [OF assms])

lemma slice_in_unit:
  assumes "i < n" and "x \<in> {real (n - 1 - i) / real n .. real (n - i) / real n}"
  shows "x \<in> {0..1}"
proof -
  from assms(1) have n: "0 < real n" by simp
  have a: "0 \<le> real (n - 1 - i) / real n"
    by (rule divide_nonneg_nonneg) simp_all
  have b: "real (n - i) / real n \<le> 1"
    using n by (simp add: divide_le_eq)
  from assms(2) have c: "real (n - 1 - i) / real n \<le> x" and d: "x \<le> real (n - i) / real n"
    by (simp_all only: atLeastAtMost_iff)
  from a c have "0 \<le> x" by (rule order_trans)
  moreover from d b have "x \<le> 1" by (rule order_trans)
  ultimately show ?thesis by (simp only: atLeastAtMost_iff)
qed

lemma unit_in_slice:
  assumes "0 < n" and "x \<in> {0..1::real}"
  shows "\<exists>i<n. x \<in> {real (n - 1 - i) / real n .. real (n - i) / real n}"
proof -
  from assms(1) have n: "0 < real n" by simp
  from assms(2) have x0: "0 \<le> x" and x1: "x \<le> 1" by simp_all
  define m where "m = nat \<lfloor>x * real n\<rfloor>"
  define j where "j = min m (n - 1)"
  define i where "i = n - 1 - j"
  have jn: "j < n" using assms(1) by (simp add: j_def)
  then have "i < n" by (simp add: i_def)
  have ij: "n - 1 - i = j" and ij': "n - i = Suc j" using jn by (simp_all add: i_def)
  have xn0: "0 \<le> x * real n" using x0 n by simp
  have "real m \<le> x * real n"
    using xn0 by (simp add: m_def)
  then have "real j \<le> x * real n"
    by (simp add: j_def min_def)
  then have lo: "real j / real n \<le> x"
    using n by (simp add: divide_le_eq)
  have "x * real n \<le> real (Suc j)"
  proof (cases "m \<le> n - 1")
    case True
    then have "j = m" by (simp add: j_def)
    have "x * real n < of_int \<lfloor>x * real n\<rfloor> + 1" by linarith
    also have "of_int \<lfloor>x * real n\<rfloor> = real m"
      using xn0 by (simp add: m_def)
    finally show ?thesis using \<open>j = m\<close> by simp
  next
    case False
    then have "Suc j = n" using assms(1) by (simp add: j_def)
    moreover have "x * real n \<le> real n" using x1 n by simp
    ultimately show ?thesis by simp
  qed
  then have hi: "x \<le> real (Suc j) / real n"
    using n by (simp add: le_divide_eq)
  from lo hi have "x \<in> {real (n - 1 - i) / real n .. real (n - i) / real n}"
    unfolding ij ij' by simp
  with \<open>i < n\<close> show ?thesis by blast
qed

lemma slices_disjoint_lt:
  assumes "i < j" and "j < n"
  shows "{real (n - 1 - i) / real n <..< real (n - i) / real n} \<inter>
         {real (n - 1 - j) / real n <..< real (n - j) / real n} = {}"
proof -
  from assms have n: "0 < real n" by simp
  from assms have "n - j \<le> n - 1 - i" by simp
  then have "real (n - j) \<le> real (n - 1 - i)" by (simp only: of_nat_le_iff)
  then have "real (n - j) / real n \<le> real (n - 1 - i) / real n"
    using n by (simp add: divide_right_mono)
  then show ?thesis by auto
qed

lemma slices_disjoint:
  assumes "i < n" and "j < n" and "i \<noteq> j"
  shows "{real (n - 1 - i) / real n <..< real (n - i) / real n} \<inter>
         {real (n - 1 - j) / real n <..< real (n - j) / real n} = {}"
proof (cases "i < j")
  case True
  then show ?thesis using assms(2) by (rule slices_disjoint_lt)
next
  case False
  with assms(3) have "j < i" by simp
  from slices_disjoint_lt [OF this assms(1)] show ?thesis by (simp add: Int_commute)
qed

text \<open>
  Claim C1. For a positive \<open>totalSegments\<close>: the \<open>uStart\<close> edge of segment \<open>i\<close> is the
  \<open>uEnd\<close> edge of segment \<open>i + 1\<close>; the slices of the segments \<open>0 \<le> i < totalSegments\<close>
  together are exactly the interval from 0 to 1; and two different segments' slices
  share no inner point.
\<close>

theorem uv_tiling:
  assumes "0 < n"
  shows "(\<forall>i. Suc i < n \<longrightarrow>
            uStart_edge (setUVsForSegment (num i) (num n)) =
            uEnd_edge (setUVsForSegment (num (Suc i)) (num n))) \<and>
         (\<Union>i<n. texture_interval (setUVsForSegment (num i) (num n))) = {0..1} \<and>
         (\<forall>i<n. \<forall>j<n. i \<noteq> j \<longrightarrow>
            texture_interior (setUVsForSegment (num i) (num n)) \<inter>
            texture_interior (setUVsForSegment (num j) (num n)) = {})"
proof (intro conjI allI impI)
  fix i assume s: "Suc i < n"
  then have i: "i < n" by simp
  have "n - 1 - i = n - Suc i" by simp
  then show "uStart_edge (setUVsForSegment (num i) (num n)) =
            uEnd_edge (setUVsForSegment (num (Suc i)) (num n))"
    by (simp only: uv_edges(1) [OF i] uv_edges(2) [OF s])
next
  show "(\<Union>i<n. texture_interval (setUVsForSegment (num i) (num n))) = {0..1}"
  proof (rule set_eqI, rule iffI)
    fix x assume "x \<in> (\<Union>i<n. texture_interval (setUVsForSegment (num i) (num n)))"
    then obtain i where "i < n" and "x \<in> texture_interval (setUVsForSegment (num i) (num n))"
      by blast
    then show "x \<in> {0..1}"
      using slice_in_unit [of i n x] by (simp only: uv_interval(1))
  next
    fix x :: real assume "x \<in> {0..1}"
    from unit_in_slice [OF assms this] obtain i where i: "i < n"
      and "x \<in> {real (n - 1 - i) / real n .. real (n - i) / real n}" by blast
    then have "x \<in> texture_interval (setUVsForSegment (num i) (num n))"
      by (simp only: uv_interval(1) [OF i])
    with i show "x \<in> (\<Union>i<n. texture_interval (setUVsForSegment (num i) (num n)))"
      by blast
  qed
next
  fix i j assume i: "i < n" and j: "j < n" and ne: "i \<noteq> j"
  show "texture_interior (setUVsForSegment (num i) (num n)) \<inter>
            texture_interior (setUVsForSegment (num j) (num n)) = {}"
    unfolding uv_interval(2) [OF i] uv_interval(2) [OF j]
    by (rule slices_disjoint [OF i j ne])
qed

theorem uv_tiling_witness:
  "(0::nat) < 2 \<and>
   uStart_edge (setUVsForSegment (num 0) (num 2)) =
     uEnd_edge (setUVsForSegment (num (Suc 0)) (num 2)) \<and>
   (\<Union>i<2. texture_interval (setUVsForSegment (num i) (num 2))) = {0..1} \<and>
   texture_interior (setUVsForSegment (num 0) (num 2)) \<inter>
     texture_interior (setUVsForSegment (num (Suc 0)) (num 2)) = {}"
  using uv_tiling [of 2] by simp



section \<open>The curve layout\<close>

lemma calc_fin:
  assumes "W \<noteq> 0" and "n \<noteq> 0"
  shows "calculateSegmentTransform (Fin W) (Fin n) (Fin c) (Fin i) =
     \<lparr>seg_position = Vector3_create (Fin (spec_x W n i)) (Fin 0)
         (Fin (spec_z W c (spec_x W n i))),
      seg_rotation = fromEulerDegrees (Fin 0)
         (Fin (degrees (- spec_angle W c (spec_x W n i)))) (Fin 0),
      seg_angle = Fin (spec_angle W c (spec_x W n i))\<rparr>"
  using assms
  by (simp add: calculateSegmentTransform_def Let_def Math_PI_def spec_x_def spec_z_def
      spec_angle_def degrees_def power2_eq_square)

lemma adj_fin:
  assumes "n \<noteq> 0"
  shows "adjustedWidth (Fin W) (Fin n) (Fin (arctan d)) = Fin (W / n / cos (arctan d))"
  using assms by (simp add: adjustedWidth_def cos_arctan_not_zero)

text \<open>
  Claim C2. For a segment index \<open>i\<close> below the segment count and a non-zero screen
  width, the segment's position is \<open>(x, 0, z)\<close> with the specification's \<open>x\<close> and \<open>z\<close>, and
  its rotation has pitch 0 and roll 0 and, as yaw, minus the tangent angle (the host
  takes it in degrees).
\<close>

theorem segment_pose:
  assumes "i < n" and "W \<noteq> 0"
  shows "seg_position (calculateSegmentTransform (Fin W) (num n) (Fin c) (num i)) =
           Vector3_create (Fin (spec_x W (real n) (real i))) (Fin 0)
             (Fin (spec_z W c (spec_x W (real n) (real i)))) \<and>
         seg_rotation (calculateSegmentTransform (Fin W) (num n) (Fin c) (num i)) =
           fromEulerDegrees (Fin 0)
             (Fin (degrees (- spec_angle W c (spec_x W (real n) (real i))))) (Fin 0)"
proof -
  from assms have "real n \<noteq> 0" by simp
  then show ?thesis
    unfolding num_def using assms(2) by (simp add: calc_fin)
qed

theorem segment_pose_witness:
  "(3::nat) < 22 \<and> (16::real) \<noteq> 0 \<and>
   seg_position (calculateSegmentTransform (Fin 16) (num 22) (Fin 0.3) (num 3)) =
     Vector3_create (Fin (spec_x 16 22 3)) (Fin 0) (Fin (spec_z 16 0.3 (spec_x 16 22 3))) \<and>
   seg_rotation (calculateSegmentTransform (Fin 16) (num 22) (Fin 0.3) (num 3)) =
     fromEulerDegrees (Fin 0) (Fin (degrees (- spec_angle 16 0.3 (spec_x 16 22 3)))) (Fin 0)"
  using segment_pose [of 3 22 16 "0.3"] by simp

text \<open>
  Claim C10. For a positive screen width and segment count, every finite curve factor
  and every finite segment index: the tangent angle is an arc tangent, so it lies
  strictly between \<open>-pi/2\<close> and \<open>pi/2\<close> and its cosine is positive; the adjusted width is
  then the finite quotient of the unadjusted width by that cosine, it is positive, and
  it is at least the unadjusted width.
\<close>

theorem adjusted_width_safe:
  assumes "0 < W" and "0 < n"
  shows "seg_angle (calculateSegmentTransform (Fin W) (num n) (Fin c) (Fin i)) =
            Fin (spec_angle W c (spec_x W (real n) i)) \<and>
         - (pi / 2) < spec_angle W c (spec_x W (real n) i) \<and>
         spec_angle W c (spec_x W (real n) i) < pi / 2 \<and>
         0 < cos (spec_angle W c (spec_x W (real n) i)) \<and>
         adjustedWidth (Fin W) (num n) (Fin (spec_angle W c (spec_x W (real n) i))) =
            Fin (W / real n / cos (spec_angle W c (spec_x W (real n) i))) \<and>
         0 < W / real n / cos (spec_angle W c (spec_x W (real n) i)) \<and>
         W / real n \<le> W / real n / cos (spec_angle W c (spec_x W (real n) i))"
proof -
  let ?a = "spec_angle W c (spec_x W (real n) i)"
  from assms have n0: "real n \<noteq> 0" and W0: "W \<noteq> 0" by simp_all
  have lo: "- (pi / 2) < ?a"
    unfolding spec_angle_def by (rule arctan_lbound)
  have hi: "?a < pi / 2"
    unfolding spec_angle_def by (rule arctan_ubound)
  have cpos: "0 < cos ?a" using lo hi by (rule cos_gt_zero_pi)
  have cle: "cos ?a \<le> 1" by simp
  have wpos: "0 < W / real n" using assms by simp
  have a1: "seg_angle (calculateSegmentTransform (Fin W) (num n) (Fin c) (Fin i)) = Fin ?a"
    unfolding num_def by (simp add: calc_fin [OF W0 n0])
  have a2: "adjustedWidth (Fin W) (num n) (Fin ?a) = Fin (W / real n / cos ?a)"
    unfolding num_def spec_angle_def by (rule adj_fin [OF n0])
  have a3: "0 < W / real n / cos ?a" using wpos cpos by (rule divide_pos_pos)
  have "W / real n * cos ?a \<le> W / real n"
    using cle wpos by (intro mult_left_le) simp_all
  then have a4: "W / real n \<le> W / real n / cos ?a"
    using cpos by (simp only: pos_le_divide_eq)
  show ?thesis using a1 lo hi cpos a2 a3 a4 by simp
qed

theorem adjusted_width_safe_witness:
  "(0::real) < 16 \<and> (0::nat) < 22 \<and>
   seg_angle (calculateSegmentTransform (Fin 16) (num 22) (Fin 1000) (Fin 0)) =
      Fin (spec_angle 16 1000 (spec_x 16 22 0)) \<and>
   - (pi / 2) < spec_angle 16 1000 (spec_x 16 22 0) \<and>
   spec_angle 16 1000 (spec_x 16 22 0) < pi / 2 \<and>
   0 < cos (spec_angle 16 1000 (spec_x 16 22 0)) \<and>
   adjustedWidth (Fin 16) (num 22) (Fin (spec_angle 16 1000 (spec_x 16 22 0))) =
      Fin (16 / 22 / cos (spec_angle 16 1000 (spec_x 16 22 0))) \<and>
   0 < (16::real) / 22 / cos (spec_angle 16 1000 (spec_x 16 22 0)) \<and>
   (16::real) / 22 \<le> 16 / 22 / cos (spec_angle 16 1000 (spec_x 16 22 0))"
  using adjusted_width_safe [of 16 22 1000 0] by simp

lemma x_even_lo:
  assumes "0 < k"
  shows "spec_x W (real (2 * k)) (real (k - 1)) = - (W / (2 * real (2 * k)))"
proof -
  from assms have "real (k - 1) = real k - 1" by (simp add: of_nat_diff)
  moreover from assms have "real k \<noteq> 0" by simp
  ultimately show ?thesis by (simp add: spec_x_def field_simps)
qed

lemma x_even_hi:
  assumes "0 < k"
  shows "spec_x W (real (2 * k)) (real k) = W / (2 * real (2 * k))"
proof -
  from assms have "real k \<noteq> 0" by simp
  then show ?thesis by (simp add: spec_x_def field_simps)
qed

lemma x_odd_mid: "spec_x W (real (2 * k + 1)) (real k) = 0"
proof -
  have "real (2 * k + 1) \<noteq> 0" by simp
  then show ?thesis by (simp add: spec_x_def field_simps)
qed

lemma spec_z_neg: "spec_z W c (- x) = spec_z W c x"
  by (simp add: spec_z_def)

lemma spec_angle_neg: "spec_angle W c (- x) = - spec_angle W c x"
  by (simp add: spec_angle_def arctan_minus [symmetric])

lemma calc_num:
  assumes "W \<noteq> 0" and "0 < n"
  shows "calculateSegmentTransform (Fin W) (num n) (Fin c) (num i) =
     \<lparr>seg_position = Vector3_create (Fin (spec_x W (real n) (real i))) (Fin 0)
         (Fin (spec_z W c (spec_x W (real n) (real i)))),
      seg_rotation = fromEulerDegrees (Fin 0)
         (Fin (degrees (- spec_angle W c (spec_x W (real n) (real i))))) (Fin 0),
      seg_angle = Fin (spec_angle W c (spec_x W (real n) (real i)))\<rparr>"
proof -
  from assms(2) have "real n \<noteq> 0" by simp
  with assms(1) show ?thesis unfolding num_def by (rule calc_fin)
qed

text \<open>
  Claim C6. For an even segment count \<open>2 * k\<close> and a non-zero screen width, the segments
  \<open>k - 1\<close> and \<open>k\<close> on both sides of the centre have opposite \<open>x\<close>, the same \<open>z\<close> and
  opposite tangent angles (hence opposite yaw).
\<close>

theorem straddling_symmetric:
  assumes "0 < k" and "W \<noteq> 0"
  shows "calculateSegmentTransform (Fin W) (num (2 * k)) (Fin c) (num (k - 1)) =
     \<lparr>seg_position = Vector3_create (Fin (- (W / (2 * real (2 * k)))))  (Fin 0)
         (Fin (spec_z W c (W / (2 * real (2 * k))))),
      seg_rotation = fromEulerDegrees (Fin 0)
         (Fin (degrees (spec_angle W c (W / (2 * real (2 * k)))))) (Fin 0),
      seg_angle = Fin (- spec_angle W c (W / (2 * real (2 * k))))\<rparr> \<and>
    calculateSegmentTransform (Fin W) (num (2 * k)) (Fin c) (num k) =
     \<lparr>seg_position = Vector3_create (Fin (W / (2 * real (2 * k))))  (Fin 0)
         (Fin (spec_z W c (W / (2 * real (2 * k))))),
      seg_rotation = fromEulerDegrees (Fin 0)
         (Fin (degrees (- spec_angle W c (W / (2 * real (2 * k)))))) (Fin 0),
      seg_angle = Fin (spec_angle W c (W / (2 * real (2 * k))))\<rparr>"
proof -
  from assms(1) have n: "0 < 2 * k" by simp
  show ?thesis
    unfolding calc_num [OF assms(2) n] x_even_lo [OF assms(1)] x_even_hi [OF assms(1)]
      spec_z_neg spec_angle_neg
    by simp
qed

theorem straddling_symmetric_witness:
  "(0::nat) < 11 \<and> (16::real) \<noteq> 0 \<and>
   calculateSegmentTransform (Fin 16) (num 22) (Fin 0.3) (num 10) =
     \<lparr>seg_position = Vector3_create (Fin (- (4 / 11))) (Fin 0) (Fin (3 / 1210)),
      seg_rotation = fromEulerDegrees (Fin 0) (Fin (degrees (arctan (3 / 220)))) (Fin 0),
      seg_angle = Fin (- arctan (3 / 220))\<rparr> \<and>
   calculateSegmentTransform (Fin 16) (num 22) (Fin 0.3) (num 11) =
     \<lparr>seg_position = Vector3_create (Fin (4 / 11)) (Fin 0) (Fin (3 / 1210)),
      seg_rotation = fromEulerDegrees (Fin 0) (Fin (degrees (- arctan (3 / 220)))) (Fin 0),
      seg_angle = Fin (arctan (3 / 220))\<rparr>"
  using straddling_symmetric [of 11 16 "0.3"]
  by (simp add: spec_z_def spec_angle_def power2_eq_square)

text \<open>
  Claim C5, as stated, fails for an even segment count: with the source's 22 segments
  and default curve factor, segments 10 and 11 have neither depth 0 nor angle 0.
\<close>

theorem center_not_zero_counterexample:
  "vec_z (seg_position (calculateSegmentTransform (Fin 16) (num 22) (Fin 0.3) (num 11)))
     \<noteq> Fin 0 \<and>
   vec_z (seg_position (calculateSegmentTransform (Fin 16) (num 22) (Fin 0.3) (num 10)))
     \<noteq> Fin 0 \<and>
   seg_angle (calculateSegmentTransform (Fin 16) (num 22) (Fin 0.3) (num 11)) \<noteq> Fin 0 \<and>
   seg_angle (calculateSegmentTransform (Fin 16) (num 22) (Fin 0.3) (num 10)) \<noteq> Fin 0"
  by (simp add: calc_num spec_x_def spec_z_def spec_angle_def arctan_eq_zero_iff)

text \<open>
  Claim C5, amended. For an odd segment count \<open>2 * k + 1\<close> the middle segment \<open>k\<close> is at
  \<open>x = 0\<close> with depth 0 and no rotation. For an even segment count \<open>n = 2 * k\<close> the
  two segments next to the centre have depth \<open>curveFactor * screenWidth / (4 * n\<^sup>2)\<close> and
  tangent angles \<open>-atan (curveFactor / n)\<close> and \<open>atan (curveFactor / n)\<close>, which are zero
  exactly when the curve factor is zero.
\<close>

theorem center_segments:
  assumes "W \<noteq> 0"
  shows "calculateSegmentTransform (Fin W) (num (2 * k + 1)) (Fin c) (num k) =
     \<lparr>seg_position = Vector3_create (Fin 0) (Fin 0) (Fin 0),
      seg_rotation = fromEulerDegrees (Fin 0) (Fin 0) (Fin 0),
      seg_angle = Fin 0\<rparr> \<and>
    (0 < k \<longrightarrow>
      vec_z (seg_position (calculateSegmentTransform (Fin W) (num (2 * k)) (Fin c) (num (k - 1))))
        = Fin (c * W / (4 * (real (2 * k))\<^sup>2)) \<and>
      vec_z (seg_position (calculateSegmentTransform (Fin W) (num (2 * k)) (Fin c) (num k)))
        = Fin (c * W / (4 * (real (2 * k))\<^sup>2)) \<and>
      seg_angle (calculateSegmentTransform (Fin W) (num (2 * k)) (Fin c) (num (k - 1)))
        = Fin (- arctan (c / real (2 * k))) \<and>
      seg_angle (calculateSegmentTransform (Fin W) (num (2 * k)) (Fin c) (num k))
        = Fin (arctan (c / real (2 * k))) \<and>
      (c * W / (4 * (real (2 * k))\<^sup>2) = 0 \<longleftrightarrow> c = 0) \<and>
      (arctan (c / real (2 * k)) = 0 \<longleftrightarrow> c = 0))"
proof -
  have odd: "calculateSegmentTransform (Fin W) (num (2 * k + 1)) (Fin c) (num k) =
     \<lparr>seg_position = Vector3_create (Fin 0) (Fin 0) (Fin 0),
      seg_rotation = fromEulerDegrees (Fin 0) (Fin 0) (Fin 0),
      seg_angle = Fin 0\<rparr>"
  proof -
    have n: "0 < 2 * k + 1" by simp
    show ?thesis
      unfolding calc_num [OF assms n] x_odd_mid
      by (simp add: spec_z_def spec_angle_def degrees_def)
  qed
  have even: "vec_z (seg_position (calculateSegmentTransform (Fin W) (num (2 * k)) (Fin c) (num (k - 1))))
        = Fin (c * W / (4 * (real (2 * k))\<^sup>2)) \<and>
      vec_z (seg_position (calculateSegmentTransform (Fin W) (num (2 * k)) (Fin c) (num k)))
        = Fin (c * W / (4 * (real (2 * k))\<^sup>2)) \<and>
      seg_angle (calculateSegmentTransform (Fin W) (num (2 * k)) (Fin c) (num (k - 1)))
        = Fin (- arctan (c / real (2 * k))) \<and>
      seg_angle (calculateSegmentTransform (Fin W) (num (2 * k)) (Fin c) (num k))
        = Fin (arctan (c / real (2 * k))) \<and>
      (c * W / (4 * (real (2 * k))\<^sup>2) = 0 \<longleftrightarrow> c = 0) \<and>
      (arctan (c / real (2 * k)) = 0 \<longleftrightarrow> c = 0)" if k: "0 < k"
  proof -
    from k have n: "0 < 2 * k" by simp
    from k have k0: "real k \<noteq> 0" by simp
    have z: "spec_z W c (W / (2 * real (2 * k))) = c * W / (4 * (real (2 * k))\<^sup>2)"
      using assms k0 by (simp add: spec_z_def power2_eq_square field_simps)
    have a: "spec_angle W c (W / (2 * real (2 * k))) = arctan (c / real (2 * k))"
      using assms k0 by (simp add: spec_angle_def)
    show ?thesis
      unfolding calc_num [OF assms n] x_even_lo [OF k] x_even_hi [OF k]
        spec_z_neg spec_angle_neg z a
      using assms k0 by (simp add: arctan_eq_zero_iff)
  qed
  from odd even show ?thesis by blast
qed

theorem center_segments_witness:
  "(16::real) \<noteq> 0 \<and>
   calculateSegmentTransform (Fin 16) (num 23) (Fin 0.3) (num 11) =
     \<lparr>seg_position = Vector3_create (Fin 0) (Fin 0) (Fin 0),
      seg_rotation = fromEulerDegrees (Fin 0) (Fin 0) (Fin 0),
      seg_angle = Fin 0\<rparr> \<and>
   (0::nat) < 11 \<and>
   vec_z (seg_position (calculateSegmentTransform (Fin 16) (num 22) (Fin 0.3) (num 10)))
     = Fin (3 / 1210) \<and>
   vec_z (seg_position (calculateSegmentTransform (Fin 16) (num 22) (Fin 0.3) (num 11)))
     = Fin (3 / 1210) \<and>
   seg_angle (calculateSegmentTransform (Fin 16) (num 22) (Fin 0.3) (num 10))
     = Fin (- arctan (3 / 220)) \<and>
   seg_angle (calculateSegmentTransform (Fin 16) (num 22) (Fin 0.3) (num 11))
     = Fin (arctan (3 / 220))"
  using center_segments [of 16 11 "0.3"] by simp


text \<open>
  Claim C8, as stated, fails on both depths: in the reference scenario segment 0 has
  depth \<open>1323 / 1210\<close>, about 1.0934 and not 0.655, and segment 11 has depth
  \<open>3 / 1210\<close>, about 0.00248 and not 0.0015.
\<close>

theorem reference_depth_counterexample:
  "vec_z (seg_position (calculateSegmentTransform (Fin 16) (num 22) (Fin 0.3) (num 0)))
     = Fin (1323 / 1210) \<and>
   (0.4::real) < \<bar>1323 / 1210 - 0.655\<bar> \<and>
   vec_z (seg_position (calculateSegmentTransform (Fin 16) (num 22) (Fin 0.3) (num 11)))
     = Fin (3 / 1210) \<and>
   (0.0009::real) < \<bar>3 / 1210 - 0.0015\<bar>"
  by (simp add: calc_num spec_x_def spec_z_def power2_eq_square)

text \<open>
  Claim C8, amended. With 22 segments, width 16 and curve factor 0.3, segment 0 is at
  \<open>x = -84/11\<close> (about -7.636) with depth \<open>1323/1210\<close> (about 1.0934), segment 11 is at
  \<open>x = 4/11\<close> (about 0.364) with depth \<open>3/1210\<close> (about 0.00248), and the slice of
  segment 0 has reversed index 21, \<open>uStart = 21/22\<close> (about 0.9545) and \<open>uEnd = 1\<close>.
\<close>

theorem reference_scenario:
  "seg_position (calculateSegmentTransform (Fin 16) (num 22) (Fin 0.3) (num 0))
     = Vector3_create (Fin (- 84 / 11)) (Fin 0) (Fin (1323 / 1210)) \<and>
   \<bar>- 84 / 11 - (- 7.636)\<bar> < (0.001::real) \<and>
   \<bar>1323 / 1210 - 1.0934\<bar> < (0.0001::real) \<and>
   seg_position (calculateSegmentTransform (Fin 16) (num 22) (Fin 0.3) (num 11))
     = Vector3_create (Fin (4 / 11)) (Fin 0) (Fin (3 / 1210)) \<and>
   \<bar>4 / 11 - 0.364\<bar> < (0.001::real) \<and>
   \<bar>3 / 1210 - 0.00248\<bar> < (0.00001::real) \<and>
   spec_reversedIndex 22 0 = 21 \<and>
   visible_face (setUVsForSegment (num 0) (num 22)) =
     [Fin 1, Fin 1, Fin (21 / 22), Fin 1, Fin (21 / 22), Fin 0, Fin 1, Fin 0] \<and>
   \<bar>21 / 22 - 0.9545\<bar> < (0.0001::real)"
  by (simp add: calc_fin spec_x_def spec_z_def power2_eq_square spec_reversedIndex_def
      num_def setUVs_fin visible_face_def)


section \<open>The creation loop\<close>

text \<open>
  Each pass takes the next fresh entity and attaches its three components; nothing an
  earlier entity holds is touched.
\<close>

lemma create_segment_next:
  "next_entity (create_segment W H n c tex p i eng) = Suc (next_entity eng)"
  by (simp add: create_segment_def addEntity_def Transform_create_def
      MeshRenderer_setBox_def Material_setPbrMaterial_def Let_def)

lemma create_segment_transforms:
  "transforms (create_segment W H n c tex p i eng) =
     (transforms eng)(next_entity eng \<mapsto>
       \<lparr>tf_parent = Some p,
        tf_position = seg_position (calculateSegmentTransform W (num n) c (num i)),
        tf_rotation = seg_rotation (calculateSegmentTransform W (num n) c (num i)),
        tf_scale = Vector3_create
          (adjustedWidth W (num n) (seg_angle (calculateSegmentTransform W (num n) c (num i))))
          H (Fin 0.1)\<rparr>)"
  by (simp add: create_segment_def addEntity_def Transform_create_def
      MeshRenderer_setBox_def Material_setPbrMaterial_def Let_def)

lemma create_segment_boxes:
  "boxes (create_segment W H n c tex p i eng) =
     (boxes eng)(next_entity eng \<mapsto> setUVsForSegment (num i) (num n))"
  by (simp add: create_segment_def addEntity_def Transform_create_def
      MeshRenderer_setBox_def Material_setPbrMaterial_def Let_def)

lemma create_segments_next:
  "next_entity (create_segments W H n c tex p i eng) = next_entity eng + (n - i)"
proof (induction W H n c tex p i eng rule: create_segments.induct)
  case (1 W H n c tex p i eng)
  show ?case
  proof (cases "i < n")
    case True
    with "1.IH" show ?thesis
      by (simp add: create_segments.simps [of W H n c tex p i eng] create_segment_next)
  next
    case False
    then show ?thesis by (simp add: create_segments.simps [of W H n c tex p i eng])
  qed
qed

lemma create_segments_old:
  "e < next_entity eng \<Longrightarrow>
   transforms (create_segments W H n c tex p i eng) e = transforms eng e \<and>
   boxes (create_segments W H n c tex p i eng) e = boxes eng e"
proof (induction W H n c tex p i eng rule: create_segments.induct)
  case (1 W H n c tex p i eng)
  show ?case
  proof (cases "i < n")
    case True
    from "1.prems" have "e < next_entity (create_segment W H n c tex p i eng)"
      by (simp add: create_segment_next)
    with "1.IH" [OF True] "1.prems" show ?thesis
      by (simp add: create_segments.simps [of W H n c tex p i eng]
          create_segment_transforms create_segment_boxes)
  next
    case False
    then show ?thesis by (simp add: create_segments.simps [of W H n c tex p i eng])
  qed
qed

lemma create_segments_new:
  "i \<le> j \<Longrightarrow> j < n \<Longrightarrow>
   transforms (create_segments W H n c tex p i eng) (next_entity eng + (j - i)) =
     Some \<lparr>tf_parent = Some p,
        tf_position = seg_position (calculateSegmentTransform W (num n) c (num j)),
        tf_rotation = seg_rotation (calculateSegmentTransform W (num n) c (num j)),
        tf_scale = Vector3_create
          (adjustedWidth W (num n) (seg_angle (calculateSegmentTransform W (num n) c (num j))))
          H (Fin 0.1)\<rparr> \<and>
   boxes (create_segments W H n c tex p i eng) (next_entity eng + (j - i)) =
     Some (setUVsForSegment (num j) (num n))"
proof (induction W H n c tex p i eng rule: create_segments.induct)
  case (1 W H n c tex p i eng)
  from "1.prems" have lt: "i < n" by simp
  let ?eng = "create_segment W H n c tex p i eng"
  have unf: "create_segments W H n c tex p i eng = create_segments W H n c tex p (Suc i) ?eng"
    using lt by (simp add: create_segments.simps [of W H n c tex p i eng])
  show ?case
  proof (cases "i = j")
    case True
    have "next_entity eng < next_entity ?eng" by (simp add: create_segment_next)
    from create_segments_old [OF this, of W H n c tex p "Suc i"] True show ?thesis
      unfolding unf by (simp add: create_segment_transforms create_segment_boxes)
  next
    case False
    with "1.prems" have le: "Suc i \<le> j" by simp
    then have idx: "next_entity ?eng + (j - Suc i) = next_entity eng + (j - i)"
      by (simp add: create_segment_next)
    from "1.IH" [OF lt le "1.prems"(2)] show ?thesis
      unfolding unf idx by simp
  qed
qed

text \<open>
  Claim C4. After the screen is created, the entity of segment \<open>i\<close> (the \<open>i\<close>-th entity
  after the parent) is a child of the parent with scale
  \<open>(adjustedWidth, screenHeight, 0.1)\<close>, where the adjusted width is
  \<open>(screenWidth / segmentCount) / cos angle\<close> for the segment's tangent angle; the
  depth 0.1 depends neither on \<open>i\<close> nor on the curve factor.
\<close>

theorem segment_scale:
  assumes "i < n" and "W \<noteq> 0"
    and "nullish (curveFactor options) (Fin 0.3) = Fin c"
  shows "\<exists>t. transforms (snd (create_screen (Fin W) H n options eng))
                (Suc (next_entity eng) + i) = Some t \<and>
              tf_parent t = Some (next_entity eng) \<and>
              tf_scale t = Vector3_create
                (Fin (W / real n / cos (spec_angle W c (spec_x W (real n) (real i)))))
                H (Fin 0.1)"
proof -
  from assms(1) have n0: "real n \<noteq> 0" by simp
  let ?eng2 = "Transform_create (next_entity eng)
                   \<lparr>tf_parent = None,
                    tf_position = opt_position options,
                    tf_rotation = opt_rotation options,
                    tf_scale = opt_scale options\<rparr> (eng\<lparr>next_entity := Suc (next_entity eng)\<rparr>)"
  have s: "snd (create_screen (Fin W) H n options eng) =
     create_segments (Fin W) H n (Fin c) (videoTexture options) (next_entity eng) 0 ?eng2"
    by (simp add: create_screen_def addEntity_def Let_def assms(3))
  have ne: "next_entity ?eng2 = Suc (next_entity eng)"
    by (simp add: Transform_create_def)
  have a: "seg_angle (calculateSegmentTransform (Fin W) (num n) (Fin c) (num i)) =
      Fin (spec_angle W c (spec_x W (real n) (real i)))"
    unfolding num_def by (simp add: calc_fin [OF assms(2) n0])
  have w: "adjustedWidth (Fin W) (num n) (Fin (spec_angle W c (spec_x W (real n) (real i)))) =
      Fin (W / real n / cos (spec_angle W c (spec_x W (real n) (real i))))"
    unfolding num_def spec_angle_def by (rule adj_fin [OF n0])
  from create_segments_new [of 0 i n "Fin W" H "Fin c" "videoTexture options"
      "next_entity eng" ?eng2] assms(1)
  show ?thesis
    unfolding s ne by (simp add: a w)
qed


theorem segment_scale_witness:
  "(5::nat) < 22 \<and> (16::real) \<noteq> 0 \<and>
   (\<exists>t. transforms (snd (createCurvedScreen
            \<lparr>opt_position = Vector3_create (Fin 0.875) (Fin 5.3) (Fin 16),
             opt_rotation = fromEulerDegrees (Fin 0) (Fin 90) (Fin 0),
             opt_scale = Vector3_create (Fin 1) (Fin 1) (Fin 1),
             videoTexture = Texture_Video 1,
             curveFactor = None\<rparr>
            \<lparr>next_entity = 2, transforms = Map.empty, boxes = Map.empty,
             materials = Map.empty\<rparr>)) 8 = Some t \<and>
        tf_parent t = Some 2 \<and>
        tf_scale t = Vector3_create
          (Fin (16 / 22 / cos (spec_angle 16 0.3 (spec_x 16 22 5)))) (Fin 9) (Fin 0.1))"
  using segment_scale [where i = 5 and n = 22 and W = 16 and c = "0.3" and H = "Fin 9"
      and options = "\<lparr>opt_position = Vector3_create (Fin 0.875) (Fin 5.3) (Fin 16),
             opt_rotation = fromEulerDegrees (Fin 0) (Fin 90) (Fin 0),
             opt_scale = Vector3_create (Fin 1) (Fin 1) (Fin 1),
             videoTexture = Texture_Video 1,
             curveFactor = None\<rparr>"
      and eng = "\<lparr>next_entity = 2, transforms = Map.empty, boxes = Map.empty,
             materials = Map.empty\<rparr>"]
  by (simp add: createCurvedScreen_def nullish_def)


section \<open>Invalid segment counts\<close>

text \<open>
  Neither function has a \<open>throw\<close>, and arithmetic on numbers does not raise: a value
  of the model is what the source returns.

  Claim C7, as stated, fails: with \<open>totalSegments = 0\<close> the mapper returns a list of 48
  numbers like any other, the visible face holding NaN and \<open>-Infinity\<close>.
\<close>

theorem zero_segments_counterexample:
  "setUVsForSegment (Fin 0) (Fin 0) =
     replicate 32 (Fin 0) @
     [NaN, Fin 1, NInf, Fin 1, NInf, Fin 0, NaN, Fin 0] @
     replicate 8 (Fin 0)"
  by (simp add: setUVsForSegment_def Let_def js_sub_def numeral_eq_Suc)

lemma div_zero_not_finite: "\<not> is_finite (js_div a (Fin 0))"
  by (cases a) simp_all

text \<open>
  Claim C7, amended. There is no validation. With \<open>totalSegments = 0\<close> the mapper
  returns its 48 entries for every index, the four \<open>u\<close> entries of the visible face
  being non-finite; with a negative \<open>totalSegments\<close> it returns finite corners by the
  same formulas; and the creation loop for a count of 0 returns with the engine
  unchanged.
\<close>

theorem no_validation:
  "length (setUVsForSegment i (Fin 0)) = 48 \<and>
   \<not> is_finite (setUVsForSegment i (Fin 0) ! 32) \<and>
   \<not> is_finite (setUVsForSegment i (Fin 0) ! 34) \<and>
   \<not> is_finite (setUVsForSegment i (Fin 0) ! 36) \<and>
   \<not> is_finite (setUVsForSegment i (Fin 0) ! 38) \<and>
   (n < 0 \<longrightarrow>
      visible_face (setUVsForSegment (Fin j) (Fin n)) =
        [Fin ((n - 1 - j + 1) / n), Fin 1, Fin ((n - 1 - j) / n), Fin 1,
         Fin ((n - 1 - j) / n), Fin 0, Fin ((n - 1 - j + 1) / n), Fin 0]) \<and>
   create_segments W H 0 c tex p 0 eng = eng"
proof -
  have a: "length (setUVsForSegment i (Fin 0)) = 48" by (rule setUVs_length)
  have b: "\<not> is_finite (setUVsForSegment i (Fin 0) ! 32)"
    "\<not> is_finite (setUVsForSegment i (Fin 0) ! 34)"
    "\<not> is_finite (setUVsForSegment i (Fin 0) ! 36)"
    "\<not> is_finite (setUVsForSegment i (Fin 0) ! 38)"
    by (simp_all add: setUVsForSegment_def Let_def div_zero_not_finite)
  have c: "visible_face (setUVsForSegment (Fin j) (Fin n)) =
        [Fin ((n - 1 - j + 1) / n), Fin 1, Fin ((n - 1 - j) / n), Fin 1,
         Fin ((n - 1 - j) / n), Fin 0, Fin ((n - 1 - j + 1) / n), Fin 0]" if "n < 0"
  proof -
    from that have "n \<noteq> 0" by simp
    then show ?thesis by (simp add: setUVs_fin visible_face_def)
  qed
  have d: "create_segments W H 0 c tex p 0 eng = eng"
    by (simp add: create_segments.simps)
  from a b c d show ?thesis by blast
qed

theorem no_validation_witness:
  "length (setUVsForSegment (Fin 0) (Fin 0)) = 48 \<and>
   \<not> is_finite (setUVsForSegment (Fin 0) (Fin 0) ! 32) \<and>
   \<not> is_finite (setUVsForSegment (Fin 0) (Fin 0) ! 34) \<and>
   (- 1 :: real) < 0 \<and>
   visible_face (setUVsForSegment (Fin 0) (Fin (- 1))) =
     [Fin 1, Fin 1, Fin 2, Fin 1, Fin 2, Fin 0, Fin 1, Fin 0]"
  using no_validation [of "Fin 0" "- 1" 0] by simp


end
